theory Spec2Isabelle
  imports Main "HOL-Library.AList"
begin

section \<open>Python objects, exceptions and the bound model\<close>

text \<open>
  The engine of \<^verbatim>\<open>machine.py\<close> works on a host object, the model, through
  \<^verbatim>\<open>getattr\<close>, \<^verbatim>\<open>setattr\<close> and \<^verbatim>\<open>hasattr\<close>. The model is therefore its
  attribute namespace: a map from attribute names to Python objects. The objects the
  engine can meet there are plain data, bound methods of the model's class, other
  callables, and the \<^verbatim>\<open>functools.partial\<close> entry points the Machine installs itself.
\<close>

datatype bound =
    IsState string
  | TriggerOf string
  | GetTrigger

datatype pyobj =
    PyNone
  | PyBool bool
  | PyInt int
  | PyStr string
  | Meth string
  | Func string
  | Part bound

text \<open>
  The exceptions of a run, each with its message. \<^verbatim>\<open>MachineError\<close> is the class of
  \<^verbatim>\<open>machine.py\<close>; its base class \<^verbatim>\<open>DNSForwarderException\<close> is declared outside the
  file and plays no part here. For \<^verbatim>\<open>AttributeError\<close> the message kept is the name of
  the missing attribute. \<open>UserError\<close> stands for any exception class of the client.
\<close>

datatype exn =
    ValueError string
  | MachineError string
  | AttributeError string
  | TypeError string
  | UserError string

datatype 'a outcome = Raise exn | Return 'a

type_synonym model = "string \<rightharpoonup> pyobj"

text \<open>
  \<open>calls\<close> is a history variable, not program state: every guard and every enter or exit
  callback the engine invokes is recorded with the reference it was declared under and
  the \<^verbatim>\<open>state\<close> attribute the model carried at the moment of the call. User code
  cannot read or write it. \<open>warnings\<close> collects the messages of \<^verbatim>\<open>logger.warning\<close>.
\<close>

datatype phase = Guard | OnExit | OnEnter

datatype fired = Fired phase pyobj "pyobj option"

record world =
  attrs :: model
  calls :: "fired list"
  warnings :: "string list"

record call_args =
  pos :: "pyobj list"
  kw :: "(string \<times> pyobj) list"

text \<open>
  User code (guard predicates, callbacks) is not part of the engine. It is a parameter:
  \<open>prog f a m\<close> is what calling the object \<open>f\<close> with arguments \<open>a\<close> does to the model
  \<open>m\<close>; it returns or raises, and leaves a model behind in both cases. The Machine is
  not changed while a trigger runs.
\<close>

type_synonym invoke = "pyobj \<Rightarrow> call_args \<Rightarrow> model \<Rightarrow> pyobj outcome \<times> model"

definition no_args :: call_args where
  "no_args = \<lparr>pos = [], kw = []\<rparr>"

fun py_truthy :: "pyobj \<Rightarrow> bool" where
  "py_truthy PyNone = False"
| "py_truthy (PyBool b) = b"
| "py_truthy (PyInt i) = (i \<noteq> 0)"
| "py_truthy (PyStr s) = (s \<noteq> [])"
| "py_truthy (Meth k) = True"
| "py_truthy (Func k) = True"
| "py_truthy (Part p) = True"

fun py_num :: "pyobj \<Rightarrow> int option" where
  "py_num (PyBool b) = Some (if b then 1 else 0)"
| "py_num (PyInt i) = Some i"
| "py_num PyNone = None"
| "py_num (PyStr s) = None"
| "py_num (Meth k) = None"
| "py_num (Func k) = None"
| "py_num (Part p) = None"

text \<open>Python's \<^verbatim>\<open>==\<close>: \<^verbatim>\<open>bool\<close> is a subclass of \<^verbatim>\<open>int\<close>, so \<^verbatim>\<open>1 == True\<close>.\<close>

definition py_eq :: "pyobj \<Rightarrow> pyobj \<Rightarrow> bool" where
  "py_eq a b =
     (case py_num a of
        Some x \<Rightarrow> (case py_num b of Some y \<Rightarrow> x = y | None \<Rightarrow> False)
      | None \<Rightarrow> a = b)"

function nat_str :: "nat \<Rightarrow> string" where
  "nat_str n =
     (if n < 10 then [char_of (48 + n)]
      else nat_str (n div 10) @ [char_of (48 + n mod 10)])"
  by pat_completeness auto
termination
  by (relation "measure id") auto

text \<open>
  \<^verbatim>\<open>'%s' % obj\<close>. For a callable CPython prints class names and addresses, which the
  model does not track; the three last cases stand for that text.
\<close>

fun py_str :: "pyobj \<Rightarrow> string" where
  "py_str (PyStr s) = s"
| "py_str PyNone = ''None''"
| "py_str (PyBool b) = (if b then ''True'' else ''False'')"
| "py_str (PyInt i) = (if i < 0 then ''-'' @ nat_str (nat (- i)) else nat_str (nat i))"
| "py_str (Meth k) = ''<bound method '' @ k @ ''>''"
| "py_str (Func k) = ''<function '' @ k @ ''>''"
| "py_str (Part p) = ''functools.partial(...)''"

section \<open>listify\<close>

text \<open>
  An argument that may be \<^verbatim>\<open>None\<close>, one object, or a list of objects.
  \<^verbatim>\<open>None\<close> is \<open>One PyNone\<close>.
\<close>

datatype cb_arg = One pyobj | Many "pyobj list"

fun listify :: "cb_arg \<Rightarrow> pyobj list" where
  "listify (One PyNone) = []"
| "listify (Many xs) = xs"
| "listify (One x) = [x]"

fun arg_truthy :: "cb_arg \<Rightarrow> bool" where
  "arg_truthy (One x) = py_truthy x"
| "arg_truthy (Many xs) = (xs \<noteq> [])"

section \<open>State\<close>

record State =
  name :: string
  on_enter :: "pyobj list"
  on_exit :: "pyobj list"

definition State_init :: "string \<Rightarrow> cb_arg \<Rightarrow> cb_arg \<Rightarrow> State" where
  "State_init n enter_arg exit_arg =
     \<lparr>name = n,
      on_enter = (if arg_truthy enter_arg then listify enter_arg else []),
      on_exit = (if arg_truthy exit_arg then listify exit_arg else [])\<rparr>"

text \<open>
  \<^verbatim>\<open>add_callback(trigger, func)\<close> appends to the list attribute named by \<^verbatim>\<open>trigger\<close>;
  the Machine passes \<^verbatim>\<open>'on_enter'\<close> or \<^verbatim>\<open>'on_exit'\<close>.
\<close>

datatype cb_slot = On_enter | On_exit

definition State_add_callback :: "cb_slot \<Rightarrow> pyobj \<Rightarrow> State \<Rightarrow> State" where
  "State_add_callback trigger f st =
     (case trigger of
        On_enter \<Rightarrow> st\<lparr>on_enter := on_enter st @ [f]\<rparr>
      | On_exit \<Rightarrow> st\<lparr>on_exit := on_exit st @ [f]\<rparr>)"

text \<open>
  \<^verbatim>\<open>getattr(self.model, func) if isinstance(func, str) else func\<close>: a string is a name
  looked up on the model, anything else is the callable itself.
\<close>

definition resolve :: "pyobj \<Rightarrow> model \<Rightarrow> pyobj outcome" where
  "resolve f m =
     (case f of
        PyStr n \<Rightarrow> (case m n of None \<Rightarrow> Raise (AttributeError n) | Some a \<Rightarrow> Return a)
      | _ \<Rightarrow> Return f)"

definition call_logged ::
  "invoke \<Rightarrow> phase \<Rightarrow> pyobj \<Rightarrow> pyobj \<Rightarrow> call_args \<Rightarrow> world \<Rightarrow> pyobj outcome \<times> world" where
  "call_logged prog ph ref f a w =
     (case prog f a (attrs w) of
        (r, m') \<Rightarrow>
          (r, w\<lparr>attrs := m', calls := calls w @ [Fired ph ref (attrs w ''state'')]\<rparr>))"

text \<open>\<^verbatim>\<open>Machine.trigger_callback\<close>; the result of the callback is dropped.\<close>

definition Machine_trigger_callback ::
  "invoke \<Rightarrow> phase \<Rightarrow> pyobj \<Rightarrow> call_args \<Rightarrow> world \<Rightarrow> unit outcome \<times> world" where
  "Machine_trigger_callback prog ph f a w =
     (case resolve f (attrs w) of
        Raise e \<Rightarrow> (Raise e, w)
      | Return g \<Rightarrow>
          (case call_logged prog ph f g a w of
             (Raise e, w') \<Rightarrow> (Raise e, w')
           | (Return v, w') \<Rightarrow> (Return (), w')))"

text \<open>The loop \<^verbatim>\<open>for oe in self.on_enter\<close> (and the one over \<^verbatim>\<open>self.on_exit\<close>).\<close>

fun run_callbacks ::
  "invoke \<Rightarrow> phase \<Rightarrow> pyobj list \<Rightarrow> call_args \<Rightarrow> world \<Rightarrow> unit outcome \<times> world" where
  "run_callbacks prog ph [] a w = (Return (), w)"
| "run_callbacks prog ph (oe # oes) a w =
     (case Machine_trigger_callback prog ph oe a w of
        (Raise e, w') \<Rightarrow> (Raise e, w')
      | (Return u, w') \<Rightarrow> run_callbacks prog ph oes a w')"

definition State_enter :: "invoke \<Rightarrow> State \<Rightarrow> call_args \<Rightarrow> world \<Rightarrow> unit outcome \<times> world" where
  "State_enter prog st a w = run_callbacks prog OnEnter (on_enter st) a w"

definition State_exit :: "invoke \<Rightarrow> State \<Rightarrow> call_args \<Rightarrow> world \<Rightarrow> unit outcome \<times> world" where
  "State_exit prog st a w = run_callbacks prog OnExit (on_exit st) a w"

section \<open>Condition\<close>

datatype Condition = Condition (func: pyobj)

definition Condition_check ::
  "invoke \<Rightarrow> Condition \<Rightarrow> pyobj \<Rightarrow> world \<Rightarrow> bool outcome \<times> world" where
  "Condition_check prog c target w =
     (case resolve (func c) (attrs w) of
        Raise e \<Rightarrow> (Raise e, w)
      | Return predicate \<Rightarrow>
          (case call_logged prog Guard (func c) predicate no_args w of
             (Raise e, w') \<Rightarrow> (Raise e, w')
           | (Return v, w') \<Rightarrow> (Return (py_eq v target), w')))"

section \<open>Transition, Event, Machine: the data\<close>

record Transition =
  source :: string
  dest :: string
  conditions :: "Condition list"

definition Transition_init :: "string \<Rightarrow> string \<Rightarrow> cb_arg \<Rightarrow> Transition" where
  "Transition_init s d conds =
     \<lparr>source = s, dest = d, conditions = map Condition (listify conds)\<rparr>"

text \<open>
  \<open>ev_name\<close> is the Event's \<^verbatim>\<open>name\<close>. \<open>transitions\<close> is the \<^verbatim>\<open>defaultdict(list)\<close>,
  kept in insertion order. The Event's references to its machine and model are the
  arguments \<open>M\<close> and \<open>w\<close> of the operations.
\<close>

record Event =
  ev_name :: string
  transitions :: "(string \<times> Transition list) list"

text \<open>
  \<open>states\<close> is the \<^verbatim>\<open>OrderedDict\<close>, \<open>events\<close> the \<^verbatim>\<open>dict\<close>. The source sets
  \<^verbatim>\<open>_initial\<close> after the states are added; nothing reads it in between.
\<close>

record Machine =
  states :: "(string \<times> State) list"
  events :: "(string \<times> Event) list"
  initial :: string

definition transitions_at :: "Event \<Rightarrow> string \<Rightarrow> Transition list" where
  "transitions_at ev s = (case map_of (transitions ev) s of None \<Rightarrow> [] | Some ts \<Rightarrow> ts)"

text \<open>\<^verbatim>\<open>self.transitions[transition.source].append(transition)\<close>\<close>

definition Event_add_transition :: "Transition \<Rightarrow> Event \<Rightarrow> Event" where
  "Event_add_transition t ev =
     ev\<lparr>transitions :=
          AList.update (source t) (transitions_at ev (source t) @ [t]) (transitions ev)\<rparr>"

section \<open>Machine: state lookup and assignment\<close>

definition unregistered :: "pyobj \<Rightarrow> string" where
  "unregistered state =
     ''State '' @ [CHR 0x27] @ py_str state @ [CHR 0x27] @ '' is not a registered state.''"

definition Machine_get_state :: "Machine \<Rightarrow> pyobj \<Rightarrow> State outcome" where
  "Machine_get_state M state =
     (case state of
        PyStr s \<Rightarrow>
          (case map_of (states M) s of
             None \<Rightarrow> Raise (ValueError (unregistered state))
           | Some st \<Rightarrow> Return st)
      | _ \<Rightarrow> Raise (ValueError (unregistered state)))"

text \<open>\<^verbatim>\<open>set_state\<close> is only ever called with a state name here.\<close>

definition Machine_set_state :: "Machine \<Rightarrow> string \<Rightarrow> world \<Rightarrow> unit outcome \<times> world" where
  "Machine_set_state M state w =
     (case Machine_get_state M (PyStr state) of
        Raise e \<Rightarrow> (Raise e, w)
      | Return st \<Rightarrow> (Return (), w\<lparr>attrs := (attrs w)(''state'' \<mapsto> PyStr (name st))\<rparr>))"

section \<open>Transition.execute\<close>

text \<open>The loop over \<^verbatim>\<open>self.conditions\<close>: \<open>Return False\<close> is the early \<^verbatim>\<open>return False\<close>.\<close>

fun check_conditions ::
  "invoke \<Rightarrow> Condition list \<Rightarrow> pyobj \<Rightarrow> world \<Rightarrow> bool outcome \<times> world" where
  "check_conditions prog [] target w = (Return True, w)"
| "check_conditions prog (c # cs) target w =
     (case Condition_check prog c target w of
        (Raise e, w') \<Rightarrow> (Raise e, w')
      | (Return ok, w') \<Rightarrow>
          (if \<not> ok then (Return False, w') else check_conditions prog cs target w'))"

text \<open>
  \<^verbatim>\<open>execute(self, event, *args, target=True, **kwargs)\<close>: a keyword \<^verbatim>\<open>target\<close> of the
  call binds the parameter and is not passed on to the callbacks.
\<close>

definition target_of :: "call_args \<Rightarrow> pyobj" where
  "target_of a = (case map_of (kw a) ''target'' of None \<Rightarrow> PyBool True | Some v \<Rightarrow> v)"

definition callback_args :: "call_args \<Rightarrow> call_args" where
  "callback_args a = a\<lparr>kw := filter (\<lambda>p. fst p \<noteq> ''target'') (kw a)\<rparr>"

definition Transition_execute ::
  "invoke \<Rightarrow> Machine \<Rightarrow> Transition \<Rightarrow> call_args \<Rightarrow> world \<Rightarrow> pyobj outcome \<times> world" where
  "Transition_execute prog M t a w =
     (case check_conditions prog (conditions t) (target_of a) w of
        (Raise e, w1) \<Rightarrow> (Raise e, w1)
      | (Return ok, w1) \<Rightarrow>
          if \<not> ok then (Return (PyBool False), w1)
          else
            (case Machine_get_state M (PyStr (source t)) of
               Raise e \<Rightarrow> (Raise e, w1)
             | Return src \<Rightarrow>
                 (case State_exit prog src (callback_args a) w1 of
                    (Raise e, w2) \<Rightarrow> (Raise e, w2)
                  | (Return u, w2) \<Rightarrow>
                      (case Machine_set_state M (dest t) w2 of
                         (Raise e, w3) \<Rightarrow> (Raise e, w3)
                       | (Return u', w3) \<Rightarrow>
                           (case Machine_get_state M (PyStr (dest t)) of
                              Raise e \<Rightarrow> (Raise e, w3)
                            | Return dst \<Rightarrow>
                                (case State_enter prog dst (callback_args a) w3 of
                                   (Raise e, w4) \<Rightarrow> (Raise e, w4)
                                 | (Return u'', w4) \<Rightarrow> (Return (PyBool True), w4)))))))"

section \<open>Event.trigger\<close>

text \<open>
  The loop \<^verbatim>\<open>for t in self.transitions[state.name]\<close>. Falling off its end is Python's
  implicit \<^verbatim>\<open>return None\<close>. The \<^verbatim>\<open>try\<close> around it re-raises what it catches.
\<close>

fun run_transitions ::
  "invoke \<Rightarrow> Machine \<Rightarrow> Transition list \<Rightarrow> call_args \<Rightarrow> world \<Rightarrow> pyobj outcome \<times> world" where
  "run_transitions prog M [] a w = (Return PyNone, w)"
| "run_transitions prog M (t # ts) a w =
     (case Transition_execute prog M t a w of
        (Raise e, w') \<Rightarrow> (Raise e, w')
      | (Return r, w') \<Rightarrow>
          (if py_truthy r then (Return (PyBool True), w')
           else run_transitions prog M ts a w'))"

definition cant_trigger :: "string \<Rightarrow> string \<Rightarrow> string" where
  "cant_trigger ev st =
     ''Can'' @ [CHR 0x27] @ ''t trigger event '' @ ev @ '' from state '' @ st @ ''!''"

definition Event__trigger ::
  "invoke \<Rightarrow> Machine \<Rightarrow> Event \<Rightarrow> call_args \<Rightarrow> world \<Rightarrow> pyobj outcome \<times> world" where
  "Event__trigger prog M ev a w =
     (case attrs w ''state'' of
        None \<Rightarrow> (Raise (AttributeError ''state''), w)
      | Some cur \<Rightarrow>
          (case Machine_get_state M cur of
             Raise e \<Rightarrow> (Raise e, w)
           | Return state \<Rightarrow>
               (case map_of (transitions ev) (name state) of
                  None \<Rightarrow> (Raise (MachineError (cant_trigger (ev_name ev) (name state))), w)
                | Some ts \<Rightarrow> run_transitions prog M ts a w)))"

definition Event_trigger ::
  "invoke \<Rightarrow> Machine \<Rightarrow> Event \<Rightarrow> call_args \<Rightarrow> world \<Rightarrow> pyobj outcome \<times> world" where
  "Event_trigger prog M ev a w = Event__trigger prog M ev a w"

section \<open>Machine: binding and definition\<close>

text \<open>
  \<^verbatim>\<open>hasattr(model, n) and inspect.ismethod(getattr(model, n))\<close>: the attribute exists
  and is a bound method; a \<^verbatim>\<open>functools.partial\<close> or a plain function is not.
\<close>

fun is_method :: "pyobj option \<Rightarrow> bool" where
  "is_method (Some (Meth k)) = True"
| "is_method _ = False"

definition Machine__add_model_to_state :: "State \<Rightarrow> world \<Rightarrow> State \<times> world" where
  "Machine__add_model_to_state st w =
     (let w1 = w\<lparr>attrs := (attrs w)(''is_'' @ name st \<mapsto> Part (IsState (name st)))\<rparr>;
          enter_callback = ''on_enter_'' @ name st;
          st1 = (if is_method (attrs w1 enter_callback)
                 then State_add_callback On_enter (PyStr enter_callback) st else st);
          exit_callback = ''on_exit_'' @ name st;
          st2 = (if is_method (attrs w1 exit_callback)
                 then State_add_callback On_exit (PyStr exit_callback) st1 else st1)
      in (st2, w1))"

definition Machine__add_trigger_to_model :: "string \<Rightarrow> world \<Rightarrow> world" where
  "Machine__add_trigger_to_model trigger w =
     w\<lparr>attrs := (attrs w)(trigger \<mapsto> Part (TriggerOf trigger))\<rparr>"

text \<open>
  A state is given by its name, by a dict of keywords for the State initializer, or as a
  State instance. An instance is taken by value: the same instance is assumed not to be
  handed to the Machine twice.
\<close>

datatype state_spec = SName string | SDict string cb_arg cb_arg | SObj State

definition Machine_add_state ::
  "state_spec \<Rightarrow> cb_arg \<Rightarrow> cb_arg \<Rightarrow> Machine \<Rightarrow> world \<Rightarrow> Machine \<times> world" where
  "Machine_add_state spec enter_arg exit_arg M w =
     (let state = (case spec of
                     SName n \<Rightarrow> State_init n enter_arg exit_arg
                   | SDict n e x \<Rightarrow> State_init n e x
                   | SObj s \<Rightarrow> s)
      in case Machine__add_model_to_state state w of
           (state', w') \<Rightarrow> (M\<lparr>states := AList.update (name state) state' (states M)\<rparr>, w'))"

definition Machine_add_transition ::
  "string \<Rightarrow> string \<Rightarrow> string \<Rightarrow> cb_arg \<Rightarrow> Machine \<Rightarrow> world \<Rightarrow> Machine \<times> world" where
  "Machine_add_transition trigger src dst conds M w =
     (let fresh = (map_of (events M) trigger = None);
          ev = (case map_of (events M) trigger of
                  None \<Rightarrow> \<lparr>ev_name = trigger, transitions = []\<rparr>
                | Some e \<Rightarrow> e);
          w' = (if fresh then Machine__add_trigger_to_model trigger w else w);
          t = Transition_init src dst conds
      in (M\<lparr>events := AList.update trigger (Event_add_transition t ev) (events M)\<rparr>, w'))"

text \<open>The constructor's first loop, \<^verbatim>\<open>for state in states: self.add_state(state)\<close>.\<close>

fun add_states :: "state_spec list \<Rightarrow> Machine \<Rightarrow> world \<Rightarrow> Machine \<times> world" where
  "add_states [] M w = (M, w)"
| "add_states (s # ss) M w =
     (case Machine_add_state s (One PyNone) (One PyNone) M w of
        (M', w') \<Rightarrow> add_states ss M' w')"

text \<open>
  The constructor's last loop,
  \<^verbatim>\<open>for _, state in self.states.items(): self._add_model_to_state(state)\<close>,
  which changes each registered State in place.
\<close>

fun bind_states :: "(string \<times> State) list \<Rightarrow> world \<Rightarrow> (string \<times> State) list \<times> world" where
  "bind_states [] w = ([], w)"
| "bind_states (p # ps) w =
     (case Machine__add_model_to_state (snd p) w of
        (st', w') \<Rightarrow>
          (case bind_states ps w' of (ps', w'') \<Rightarrow> ((fst p, st') # ps', w'')))"

definition trigger_warning :: string where
  "trigger_warning =
     ''%sModel already contains an attribute '' @ [CHR 0x27] @ ''trigger'' @ [CHR 0x27]
       @ ''. Skip method binding ''"

definition Machine_init :: "state_spec list \<Rightarrow> string \<Rightarrow> world \<Rightarrow> Machine outcome \<times> world" where
  "Machine_init sts init w =
     (case add_states sts \<lparr>states = [], events = [], initial = init\<rparr> w of
        (M1, w1) \<Rightarrow>
          (case (if map_of (states M1) init = None
                 then Machine_add_state (SName init) (One PyNone) (One PyNone) M1 w1
                 else (M1, w1)) of
             (M2, w2) \<Rightarrow>
               (let w3 = (if attrs w2 ''trigger'' \<noteq> None
                          then w2\<lparr>warnings := warnings w2 @ [trigger_warning]\<rparr>
                          else w2\<lparr>attrs := (attrs w2)(''trigger'' \<mapsto> Part GetTrigger)\<rparr>);
                    w4 = fold Machine__add_trigger_to_model (map fst (events M2)) w3
                in case bind_states (states M2) w4 of
                     (sts5, w5) \<Rightarrow>
                       (case Machine_set_state (M2\<lparr>states := sts5\<rparr>) init w5 of
                          (Raise e, w6) \<Rightarrow> (Raise e, w6)
                        | (Return u, w6) \<Rightarrow> (Return (M2\<lparr>states := sts5\<rparr>), w6)))))"

section \<open>Defining a machine and calling an entry point\<close>

text \<open>
  The definition phase of a client such as \<^verbatim>\<open>example.py\<close>: the constructor, then one
  \<^verbatim>\<open>add_transition\<close> per declared transition, in order.
\<close>

fun add_transitions ::
  "(string \<times> string \<times> string \<times> cb_arg) list \<Rightarrow> Machine \<Rightarrow> world \<Rightarrow> Machine \<times> world" where
  "add_transitions [] M w = (M, w)"
| "add_transitions ((tr, s, d, c) # rest) M w =
     (case Machine_add_transition tr s d c M w of (M', w') \<Rightarrow> add_transitions rest M' w')"

definition define_machine ::
  "state_spec list \<Rightarrow> string \<Rightarrow> (string \<times> string \<times> string \<times> cb_arg) list \<Rightarrow> world
     \<Rightarrow> Machine outcome \<times> world" where
  "define_machine sts init trs w =
     (case Machine_init sts init w of
        (Raise e, w') \<Rightarrow> (Raise e, w')
      | (Return M, w') \<Rightarrow>
          (case add_transitions trs M w' of (M', w'') \<Rightarrow> (Return M', w'')))"

text \<open>
  \<^verbatim>\<open>model.n(*args)\<close>. Where the attribute is the
  \<^verbatim>\<open>functools.partial(self.events[trigger].trigger, self.model)\<close> the Machine put there,
  the call is the Event's \<^verbatim>\<open>trigger\<close>; any other attribute is user code.
\<close>

definition call_entry ::
  "invoke \<Rightarrow> Machine \<Rightarrow> string \<Rightarrow> call_args \<Rightarrow> world \<Rightarrow> pyobj outcome \<times> world" where
  "call_entry prog M n a w =
     (case attrs w n of
        None \<Rightarrow> (Raise (AttributeError n), w)
      | Some f \<Rightarrow>
          (case f of
             Part (TriggerOf k) \<Rightarrow>
               (case map_of (events M) k of
                  None \<Rightarrow> (Raise (AttributeError k), w)
                | Some ev \<Rightarrow> Event_trigger prog M ev a w)
           | _ \<Rightarrow> (case prog f a (attrs w) of (r, m') \<Rightarrow> (r, w\<lparr>attrs := m'\<rparr>))))"

section \<open>Notions used in the statements\<close>



text \<open>
  Names of the form \<^verbatim>\<open>is_...\<close>, under which the predicate accessors are attached.
\<close>

definition accessor_key :: "string \<Rightarrow> bool" where
  "accessor_key k \<longleftrightarrow> take 3 k = ''is_''"

text \<open>
  Every State of a registry is stored under its own name.
\<close>

definition names_ok :: "(string \<times> State) list \<Rightarrow> bool" where
  "names_ok xs \<longleftrightarrow> (\<forall>p \<in> set xs. name (snd p) = fst p)"

text \<open>
  The model after the constructor's step that attaches the generic entry point
  \<^verbatim>\<open>trigger\<close>, or warns and skips it.
\<close>

definition model_bound :: "world \<Rightarrow> world" where
  "model_bound w =
     (if attrs w ''trigger'' \<noteq> None
      then w\<lparr>warnings := warnings w @ [trigger_warning]\<rparr>
      else w\<lparr>attrs := (attrs w)(''trigger'' \<mapsto> Part GetTrigger)\<rparr>)"

text \<open>
  What one run of \<^verbatim>\<open>_add_model_to_state\<close> does to a State when the model's
  \<^verbatim>\<open>on_enter_...\<close> and \<^verbatim>\<open>on_exit_...\<close> attributes are those of \<open>m\<close>, and the worlds
  that agree with \<open>m\<close> on these attributes.
\<close>

definition bind_once :: "model \<Rightarrow> State \<Rightarrow> State" where
  "bind_once m st =
     (let st1 = (if is_method (m (''on_enter_'' @ name st))
                 then State_add_callback On_enter (PyStr (''on_enter_'' @ name st)) st else st)
      in if is_method (m (''on_exit_'' @ name st))
         then State_add_callback On_exit (PyStr (''on_exit_'' @ name st)) st1 else st1)"

definition same_hooks :: "model \<Rightarrow> world \<Rightarrow> bool" where
  "same_hooks m w \<longleftrightarrow>
     (\<forall>n. attrs w (''on_enter_'' @ n) = m (''on_enter_'' @ n)
        \<and> attrs w (''on_exit_'' @ n) = m (''on_exit_'' @ n))"

section \<open>The client of example.py\<close>

text \<open>
  \<^verbatim>\<open>TestObject\<close> before its Machine is built: two data attributes and three bound
  methods. \<open>ex_prog\<close> is what these methods do: \<^verbatim>\<open>is_exhausted\<close> returns False,
  \<^verbatim>\<open>update_journal\<close> increments the counter, \<^verbatim>\<open>on_exit_asleep(a=100, b=200)\<close>
  stores \<^verbatim>\<open>a + b\<close>.
\<close>

definition ex_model :: model where
  "ex_model = map_of
     [(''name'', PyStr ''harry''),
      (''kittens_rescued'', PyInt 0),
      (''update_journal'', Meth ''update_journal''),
      (''is_exhausted'', Meth ''is_exhausted''),
      (''on_exit_asleep'', Meth ''on_exit_asleep'')]"

definition ex_world0 :: world where
  "ex_world0 = \<lparr>attrs = ex_model, calls = [], warnings = []\<rparr>"

definition arg_or :: "nat \<Rightarrow> string \<Rightarrow> pyobj \<Rightarrow> call_args \<Rightarrow> pyobj" where
  "arg_or i k d a =
     (if i < length (pos a) then pos a ! i
      else case map_of (kw a) k of Some v \<Rightarrow> v | None \<Rightarrow> d)"

definition ex_prog :: invoke where
  "ex_prog f a m =
     (case f of
        Meth k \<Rightarrow>
          (if k = ''is_exhausted'' then (Return (PyBool False), m)
           else if k = ''update_journal'' then
             (case m ''kittens_rescued'' of
                Some (PyInt n) \<Rightarrow> (Return PyNone, m(''kittens_rescued'' \<mapsto> PyInt (n + 1)))
              | _ \<Rightarrow> (Raise (TypeError ''kittens_rescued''), m))
           else if k = ''on_exit_asleep'' then
             (case arg_or 0 ''a'' (PyInt 100) a of
                PyInt x \<Rightarrow>
                  (case arg_or 1 ''b'' (PyInt 200) a of
                     PyInt y \<Rightarrow> (Return PyNone, m(''internal_state'' \<mapsto> PyInt (x + y)))
                   | _ \<Rightarrow> (Raise (TypeError ''unsupported operand''), m))
              | _ \<Rightarrow> (Raise (TypeError ''unsupported operand''), m))
           else (Raise (AttributeError k), m))
      | _ \<Rightarrow> (Raise (TypeError ''object is not callable''), m))"

definition ex_states :: "state_spec list" where
  "ex_states = [SName ''asleep'', SName ''hanging'', SName ''hungry'', SName ''sweaty'',
                SName ''saving the world'']"

definition ex_transitions :: "(string \<times> string \<times> string \<times> cb_arg) list" where
  "ex_transitions =
     [(''wake_up'', ''asleep'', ''hanging'', One PyNone),
      (''work_out'', ''hanging'', ''hungry'', One PyNone),
      (''work_out'', ''asleep'', ''hungry'', One PyNone),
      (''hiit'', ''hanging'', ''sweaty'', One PyNone),
      (''eat'', ''hungry'', ''hanging'', One PyNone),
      (''clean_up'', ''sweaty'', ''asleep'', Many [PyStr ''is_exhausted'']),
      (''clean_up'', ''sweaty'', ''hanging'', One PyNone)]"

text \<open>
  The registries \<^verbatim>\<open>example.py\<close> ends up with, written out, and their parts.
\<close>

definition plain :: "string \<Rightarrow> State" where
  "plain n = \<lparr>name = n, on_enter = [], on_exit = []\<rparr>"







definition ex_machine :: Machine where
  "ex_machine =
     \<lparr>states =
        [(''asleep'', \<lparr>name = ''asleep'', on_enter = [],
                       on_exit = [PyStr ''on_exit_asleep'', PyStr ''on_exit_asleep'']\<rparr>),
         (''hanging'', \<lparr>name = ''hanging'', on_enter = [], on_exit = []\<rparr>),
         (''hungry'', \<lparr>name = ''hungry'', on_enter = [], on_exit = []\<rparr>),
         (''sweaty'', \<lparr>name = ''sweaty'', on_enter = [], on_exit = []\<rparr>),
         (''saving the world'', \<lparr>name = ''saving the world'', on_enter = [], on_exit = []\<rparr>)],
      events =
        [(''wake_up'', \<lparr>ev_name = ''wake_up'', transitions =
            [(''asleep'', [\<lparr>source = ''asleep'', dest = ''hanging'', conditions = []\<rparr>])]\<rparr>),
         (''work_out'', \<lparr>ev_name = ''work_out'', transitions =
            [(''hanging'', [\<lparr>source = ''hanging'', dest = ''hungry'', conditions = []\<rparr>]),
             (''asleep'', [\<lparr>source = ''asleep'', dest = ''hungry'', conditions = []\<rparr>])]\<rparr>),
         (''hiit'', \<lparr>ev_name = ''hiit'', transitions =
            [(''hanging'', [\<lparr>source = ''hanging'', dest = ''sweaty'', conditions = []\<rparr>])]\<rparr>),
         (''eat'', \<lparr>ev_name = ''eat'', transitions =
            [(''hungry'', [\<lparr>source = ''hungry'', dest = ''hanging'', conditions = []\<rparr>])]\<rparr>),
         (''clean_up'', \<lparr>ev_name = ''clean_up'', transitions =
            [(''sweaty'',
              [\<lparr>source = ''sweaty'', dest = ''asleep'',
                 conditions = [Condition (PyStr ''is_exhausted'')]\<rparr>,
               \<lparr>source = ''sweaty'', dest = ''hanging'', conditions = []\<rparr>])]\<rparr>)],
      initial = ''asleep''\<rparr>"

text \<open>The definition phase of \<^verbatim>\<open>example.py\<close> itself.\<close>

definition ex_built :: "Machine outcome \<times> world" where
  "ex_built = define_machine ex_states ''asleep'' ex_transitions ex_world0"

text \<open>
  The model of \<^verbatim>\<open>example.py\<close> in state \<open>s\<close> with an empty history. The accessors and
  entry points a Machine attaches play no part in the run of a trigger and are left out.
\<close>

definition ex_in :: "string \<Rightarrow> world" where
  "ex_in s = \<lparr>attrs = ex_model(''state'' \<mapsto> PyStr s), calls = [], warnings = []\<rparr>"

definition ex_args :: call_args where
  "ex_args = \<lparr>pos = [PyInt 200, PyInt 300], kw = []\<rparr>"










section \<open>Unfolding sets\<close>

lemmas run_defs = Event_trigger_def Event__trigger_def Transition_execute_def
  Machine_get_state_def Machine_set_state_def State_exit_def State_enter_def
  Machine_trigger_callback_def Condition_check_def call_logged_def resolve_def
  target_of_def callback_args_def no_args_def py_eq_def

lemmas build_defs = define_machine_def Machine_init_def Machine_add_state_def
  Machine__add_model_to_state_def
  State_init_def State_add_callback_def Machine_set_state_def Machine_get_state_def
  Machine_add_transition_def Machine__add_trigger_to_model_def Event_add_transition_def
  Transition_init_def transitions_at_def Let_def call_entry_def



section \<open>What a run leaves unchanged, and what it records\<close>

lemma pair_fst: "fst p = a \<Longrightarrow> p = (a, snd p)"
  by (cases p) simp















lemma run_transitions_outcomes:
  "fst (run_transitions prog M ts a w) \<in> {Return (PyBool True), Return PyNone} \<union> range Raise"
  by (induction ts arbitrary: w) (auto split: prod.splits outcome.splits)

lemma trigger_outcomes:
  "fst (Event_trigger prog M ev a w) \<in> {Return (PyBool True), Return PyNone} \<union> range Raise"
  using run_transitions_outcomes[of prog M _ a w]
  by (auto simp: Event_trigger_def Event__trigger_def split: option.splits outcome.splits)

lemma trigger_never_False:
  "fst (Event_trigger prog M ev a w) \<noteq> Return (PyBool False)"
  using trigger_outcomes[of prog M ev a w] by auto



section \<open>The constructor\<close>

lemma add_model_name [simp]: "name (fst (Machine__add_model_to_state st w)) = name st"
  by (simp add: Machine__add_model_to_state_def Let_def State_add_callback_def)

lemma add_model_world:
  "snd (Machine__add_model_to_state st w) =
     w\<lparr>attrs := (attrs w)(''is_'' @ name st \<mapsto> Part (IsState (name st)))\<rparr>"
  by (simp add: Machine__add_model_to_state_def Let_def)

lemma add_model_frame:
  assumes "Machine__add_model_to_state st w = (st', w')"
  shows "calls w' = calls w" and "warnings w' = warnings w"
    and "\<not> accessor_key k \<Longrightarrow> attrs w' k = attrs w k"
    and "name st' = name st"
proof -
  from assms have w': "w' = snd (Machine__add_model_to_state st w)"
    and st': "st' = fst (Machine__add_model_to_state st w)" by simp_all
  show "calls w' = calls w" "warnings w' = warnings w" "name st' = name st"
    by (simp_all add: w' st' add_model_world)
  show "attrs w' k = attrs w k" if "\<not> accessor_key k"
    using that by (auto simp: w' add_model_world accessor_key_def)
qed

lemma names_ok_update:
  "names_ok xs \<Longrightarrow> name st = k \<Longrightarrow> names_ok (AList.update k st xs)"
  unfolding names_ok_def by (induction xs) auto

lemma names_ok_map_of: "names_ok xs \<Longrightarrow> map_of xs k = Some st \<Longrightarrow> name st = k"
  unfolding names_ok_def by (metis map_of_SomeD fst_conv snd_conv)

lemma add_state_frame:
  assumes "Machine_add_state spec e x M w = (M', w')"
  shows "calls w' = calls w" and "warnings w' = warnings w"
    and "\<not> accessor_key k \<Longrightarrow> attrs w' k = attrs w k"
    and "events M' = events M"
    and "names_ok (states M) \<Longrightarrow> names_ok (states M')"
proof -
  define st where "st = (case spec of SName n \<Rightarrow> State_init n e x
                          | SDict n e' x' \<Rightarrow> State_init n e' x' | SObj s \<Rightarrow> s)"
  obtain st' w1 where 1: "Machine__add_model_to_state st w = (st', w1)"
    by (cases "Machine__add_model_to_state st w")
  from assms 1 have M': "M' = M\<lparr>states := AList.update (name st) st' (states M)\<rparr>"
    and w': "w' = w1"
    by (simp_all add: Machine_add_state_def Let_def st_def)
  note fr = add_model_frame[OF 1]
  show "calls w' = calls w" "warnings w' = warnings w" "events M' = events M"
    using fr(1,2) by (simp_all add: w' M')
  show "attrs w' k = attrs w k" if "\<not> accessor_key k"
    using fr(3)[OF that] by (simp add: w')
  show "names_ok (states M')" if "names_ok (states M)"
    using names_ok_update[OF that fr(4)] by (simp add: M')
qed

lemma add_state_registers:
  "Machine_add_state (SName n) e x M w = (M', w') \<Longrightarrow> map_of (states M') n \<noteq> None"
  by (auto simp: Machine_add_state_def Let_def update_conv' State_init_def split: prod.splits)

lemma add_states_frame:
  "add_states sts M w = (M', w') \<Longrightarrow>
     calls w' = calls w \<and> warnings w' = warnings w
   \<and> (\<not> accessor_key k \<longrightarrow> attrs w' k = attrs w k)
   \<and> events M' = events M
   \<and> (names_ok (states M) \<longrightarrow> names_ok (states M'))"
proof (induction sts arbitrary: M w)
  case Nil
  then show ?case by simp
next
  case (Cons s sts)
  obtain M1 w1 where 1: "Machine_add_state s (One PyNone) (One PyNone) M w = (M1, w1)"
    by (cases "Machine_add_state s (One PyNone) (One PyNone) M w")
  with Cons.prems have 2: "add_states sts M1 w1 = (M', w')" by simp
  from Cons.IH[OF 2] add_state_frame(1,2,4,5)[OF 1] add_state_frame(3)[OF 1, of k]
  show ?case by simp
qed

lemma bind_states_frame:
  "bind_states ps w = (ps', w') \<Longrightarrow>
     calls w' = calls w \<and> warnings w' = warnings w
   \<and> (\<not> accessor_key k \<longrightarrow> attrs w' k = attrs w k)
   \<and> map fst ps' = map fst ps
   \<and> (names_ok ps \<longrightarrow> names_ok ps')"
proof (induction ps arbitrary: w ps' w')
  case Nil
  then show ?case by simp
next
  case (Cons p ps)
  obtain st1 w1 where 1: "Machine__add_model_to_state (snd p) w = (st1, w1)"
    by (cases "Machine__add_model_to_state (snd p) w")
  obtain ps2 w2 where 2: "bind_states ps w1 = (ps2, w2)"
    by (cases "bind_states ps w1")
  from Cons.prems 1 2 have 3: "ps' = (fst p, st1) # ps2" "w' = w2" by simp_all
  from Cons.IH[OF 2] add_model_frame(1,2,4)[OF 1] add_model_frame(3)[OF 1, of k] 3 show ?case
    by (simp add: names_ok_def)
qed

lemma map_of_keys_None: "map fst xs = map fst ys \<Longrightarrow> map_of xs k = None \<longleftrightarrow> map_of ys k = None"
  by (metis map_of_eq_None_iff set_map)

lemma not_accessor_state: "\<not> accessor_key ''state''" "\<not> accessor_key ''trigger''"
  by (simp_all add: accessor_key_def)

lemma Machine_init_unfold:
  assumes "add_states sts \<lparr>states = [], events = [], initial = init\<rparr> w = (M1, w1)"
    and "(if map_of (states M1) init = None
          then Machine_add_state (SName init) (One PyNone) (One PyNone) M1 w1
          else (M1, w1)) = (M2, w2)"
    and "events M2 = []"
    and "bind_states (states M2) (model_bound w2) = (sts5, w5)"
    and "map_of sts5 init = Some st"
  shows "Machine_init sts init w =
       (Return (M2\<lparr>states := sts5\<rparr>), w5\<lparr>attrs := (attrs w5)(''state'' \<mapsto> PyStr (name st))\<rparr>)"
  using assms
  by (simp add: Machine_init_def Let_def Machine_set_state_def Machine_get_state_def
        model_bound_def)

lemma Machine_init_shape:
  "\<exists>M2 w2 sts5 w5.
      events M2 = [] \<and> calls w2 = calls w \<and> warnings w2 = warnings w
    \<and> attrs w2 ''trigger'' = attrs w ''trigger''
    \<and> bind_states (states M2) (model_bound w2) = (sts5, w5)
    \<and> map_of sts5 init \<noteq> None
    \<and> Machine_init sts init w =
       (Return (M2\<lparr>states := sts5\<rparr>), w5\<lparr>attrs := (attrs w5)(''state'' \<mapsto> PyStr init)\<rparr>)"
proof -
  let ?M0 = "\<lparr>states = [], events = [], initial = init\<rparr>"
  obtain M1 w1 where 1: "add_states sts ?M0 w = (M1, w1)"
    by (cases "add_states sts ?M0 w")
  let ?step = "if map_of (states M1) init = None
      then Machine_add_state (SName init) (One PyNone) (One PyNone) M1 w1 else (M1, w1)"
  obtain M2 w2 where 2: "?step = (M2, w2)" by (cases ?step)
  have f1: "calls w1 = calls w" "warnings w1 = warnings w"
    "attrs w1 ''trigger'' = attrs w ''trigger''" "events M1 = []" "names_ok (states M1)"
    using add_states_frame[OF 1, of "''trigger''"] not_accessor_state
    by (simp_all add: names_ok_def)
  have f2': "calls w2 = calls w \<and> warnings w2 = warnings w
      \<and> attrs w2 ''trigger'' = attrs w ''trigger'' \<and> events M2 = []
      \<and> names_ok (states M2) \<and> map_of (states M2) init \<noteq> None"
  proof (cases "map_of (states M1) init = None")
    case True
    with 2 have a: "Machine_add_state (SName init) (One PyNone) (One PyNone) M1 w1 = (M2, w2)"
      by simp
    from add_state_frame(1,2,4,5)[OF a] add_state_frame(3)[OF a, of "''trigger''"]
      add_state_registers[OF a] f1 not_accessor_state
    show ?thesis by simp
  next
    case False
    with 2 f1 show ?thesis by simp
  qed
  then have f2: "calls w2 = calls w" "warnings w2 = warnings w"
    "attrs w2 ''trigger'' = attrs w ''trigger''" "events M2 = []" "names_ok (states M2)"
    "map_of (states M2) init \<noteq> None"
    by simp_all
  obtain sts5 w5 where 5: "bind_states (states M2) (model_bound w2) = (sts5, w5)"
    by (cases "bind_states (states M2) (model_bound w2)")
  from bind_states_frame[OF 5, of "''state''"] f2(5)
  have keys: "map fst sts5 = map fst (states M2)" and ok5: "names_ok sts5" by simp_all
  from map_of_keys_None[OF keys, of init] f2(6) have "map_of sts5 init \<noteq> None"
    by simp
  then obtain st where st: "map_of sts5 init = Some st" by auto
  from names_ok_map_of[OF ok5 st] have nm: "name st = init" .
  from Machine_init_unfold[OF 1 2 f2(4) 5 st] nm
  have r: "Machine_init sts init w =
       (Return (M2\<lparr>states := sts5\<rparr>), w5\<lparr>attrs := (attrs w5)(''state'' \<mapsto> PyStr init)\<rparr>)"
    by simp
  show ?thesis
    apply (rule exI[of _ M2], rule exI[of _ w2], rule exI[of _ sts5], rule exI[of _ w5])
    using f2(1-4) 5 st r by simp
qed

lemma add_transition_world:
  "snd (Machine_add_transition trigger s d conds M w) =
     (if map_of (events M) trigger = None
      then w\<lparr>attrs := (attrs w)(trigger \<mapsto> Part (TriggerOf trigger))\<rparr> else w)"
  by (simp add: Machine_add_transition_def Let_def Machine__add_trigger_to_model_def)

lemma bind_once_name [simp]: "name (bind_once m st) = name st"
  by (simp add: bind_once_def Let_def State_add_callback_def)

lemma add_model_hooks:
  assumes "same_hooks m w"
  shows "fst (Machine__add_model_to_state st w) = bind_once m st"
    and "same_hooks m (snd (Machine__add_model_to_state st w))"
  using assms
  by (simp_all add: Machine__add_model_to_state_def Let_def bind_once_def same_hooks_def)

lemma update_fresh: "k \<notin> fst ` set xs \<Longrightarrow> AList.update k v xs = xs @ [(k, v)]"
  by (induction xs) auto

lemma add_states_names:
  assumes "same_hooks m w"
  shows "distinct (map fst (states M) @ ns) \<Longrightarrow>
         fst (add_states (map SName ns) M w)
           = M\<lparr>states := states M @ map (\<lambda>n. (n, bind_once m (plain n))) ns\<rparr>
       \<and> same_hooks m (snd (add_states (map SName ns) M w))"
  using assms
proof (induction ns arbitrary: M w)
  case Nil
  then show ?case by simp
next
  case (Cons n ns)
  let ?st = "State_init n (One PyNone) (One PyNone)"
  let ?w1 = "snd (Machine__add_model_to_state ?st w)"
  let ?M1 = "M\<lparr>states := states M @ [(n, bind_once m (plain n))]\<rparr>"
  have pl: "?st = plain n"
    by (simp add: State_init_def plain_def)
  have fresh: "n \<notin> fst ` set (states M)"
    using Cons.prems(1) by auto
  have nm: "name ?st = n"
    by (simp add: State_init_def)
  have both: "fst (Machine__add_model_to_state ?st w) = bind_once m (plain n)"
    using add_model_hooks(1)[OF Cons.prems(2), of ?st] by (simp add: pl)
  have step: "Machine_add_state (SName n) (One PyNone) (One PyNone) M w = (?M1, ?w1)"
    using both update_fresh[OF fresh] nm
    by (simp add: Machine_add_state_def Let_def case_prod_beta)
  have d1: "distinct (map fst (states ?M1) @ ns)"
    using Cons.prems(1) by simp
  have h1: "same_hooks m ?w1"
    using add_model_hooks(2)[OF Cons.prems(2)] .
  from Cons.IH[OF d1 h1] step show ?case by simp
qed

lemma bind_states_hooks:
  "same_hooks m w \<Longrightarrow>
   fst (bind_states ps w) = map (\<lambda>p. (fst p, bind_once m (snd p))) ps"
proof (induction ps arbitrary: w)
  case Nil
  then show ?case by simp
next
  case (Cons p ps)
  from add_model_hooks[OF Cons.prems, of "snd p"] Cons.IH
  show ?case by (simp split: prod.splits) (metis fst_conv snd_conv)
qed

lemma model_bound_hooks: "same_hooks m w \<Longrightarrow> same_hooks m (model_bound w)"
  by (simp add: same_hooks_def model_bound_def)

lemma same_hooks_refl: "same_hooks (attrs w) w"
  by (simp add: same_hooks_def)

text \<open>\<^verbatim>\<open>add_state\<close> on its own binds the new State once.\<close>

lemma add_state_binds_once:
  "map_of (states (fst (Machine_add_state (SName n) (One PyNone) (One PyNone) M w))) n
     = Some (bind_once (attrs w) (plain n))"
proof -
  have pl: "State_init n (One PyNone) (One PyNone) = plain n"
    by (simp add: State_init_def plain_def)
  show ?thesis
    using add_model_hooks(1)[OF same_hooks_refl, of "plain n" w]
    by (simp add: Machine_add_state_def Let_def case_prod_beta pl update_conv' plain_def)
qed

text \<open>
  The constructor on a list of distinct names: every State is bound twice, once by
  \<^verbatim>\<open>add_state\<close> and once more by the loop over \<^verbatim>\<open>self.states.items()\<close>.
\<close>

lemma constructor_binds_names_twice:
  assumes "distinct ns" and "init \<in> set ns"
  shows "fst (Machine_init (map SName ns) init w) =
           Return \<lparr>states = map (\<lambda>n. (n, bind_once (attrs w) (bind_once (attrs w) (plain n)))) ns,
                   events = [], initial = init\<rparr>"
proof -
  let ?m = "attrs w"
  let ?M0 = "\<lparr>states = [], events = [], initial = init\<rparr>"
  let ?once = "map (\<lambda>n. (n, bind_once ?m (plain n))) ns"
  let ?M1 = "?M0\<lparr>states := ?once\<rparr>"
  let ?w1 = "snd (add_states (map SName ns) ?M0 w)"
  from add_states_names[OF same_hooks_refl, of ?M0 ns w] assms(1)
  have a: "fst (add_states (map SName ns) ?M0 w) = ?M1" and h1: "same_hooks ?m ?w1"
    by simp_all
  then have 1: "add_states (map SName ns) ?M0 w = (?M1, ?w1)"
    by (simp add: pair_fst)
  have reg: "map_of (states ?M1) init \<noteq> None"
    using assms(2) by (simp add: map_of_eq_None_iff image_image)
  then have 2: "(if map_of (states ?M1) init = None
          then Machine_add_state (SName init) (One PyNone) (One PyNone) ?M1 ?w1
          else (?M1, ?w1)) = (?M1, ?w1)"
    by (simp only: if_False)
  let ?sts5 = "fst (bind_states (states ?M1) (model_bound ?w1))"
  let ?w5 = "snd (bind_states (states ?M1) (model_bound ?w1))"
  have 5: "bind_states (states ?M1) (model_bound ?w1) = (?sts5, ?w5)"
    by simp
  have twice: "?sts5 = map (\<lambda>n. (n, bind_once ?m (bind_once ?m (plain n)))) ns"
    using bind_states_hooks[OF model_bound_hooks[OF h1], of "states ?M1"]
    by (simp add: comp_def)
  have "map_of ?sts5 init \<noteq> None"
    using assms(2) unfolding twice by (simp add: map_of_eq_None_iff image_image)
  then obtain st where st: "map_of ?sts5 init = Some st" by auto
  have ev: "events ?M1 = []" by simp
  from Machine_init_unfold[OF 1 2 ev 5 st] twice show ?thesis by simp
qed

section \<open>Facts about the two clients\<close>







text \<open>The registries written out as \<open>ex_machine\<close> are the ones the definition phase builds.\<close>

lemma ex_registry:
  "fst (Machine_init ex_states ''asleep'' ex_world0) =
     Return \<lparr>states = states ex_machine, events = [], initial = ''asleep''\<rparr>"
proof -
  have names: "ex_states = map SName [''asleep'', ''hanging'', ''hungry'', ''sweaty'',
                                      ''saving the world'']"
    by (simp add: ex_states_def)
  have d: "distinct [''asleep'', ''hanging'', ''hungry'', ''sweaty'', ''saving the world'']"
    by simp
  have i: "''asleep'' \<in> set [''asleep'', ''hanging'', ''hungry'', ''sweaty'', ''saving the world'']"
    by simp
  show ?thesis
    unfolding names constructor_binds_names_twice[OF d i]
    by (simp add: bind_once_def plain_def State_add_callback_def ex_world0_def ex_model_def
          ex_machine_def)
qed

lemma ex_events:
  "fst (add_transitions ex_transitions \<lparr>states = sts, events = [], initial = i\<rparr> w)
     = \<lparr>states = sts, events = events ex_machine, initial = i\<rparr>"
  by (simp add: ex_transitions_def ex_machine_def Machine_add_transition_def Let_def
        Event_add_transition_def Transition_init_def transitions_at_def)

lemma ex_built_machine: "fst ex_built = Return ex_machine"
proof -
  let ?M0 = "\<lparr>states = states ex_machine, events = [], initial = ''asleep''\<rparr>"
  have init: "Machine_init ex_states ''asleep'' ex_world0
                = (Return ?M0, snd (Machine_init ex_states ''asleep'' ex_world0))"
    using ex_registry by (rule pair_fst)
  have "fst ex_built =
          Return (fst (add_transitions ex_transitions ?M0
                         (snd (Machine_init ex_states ''asleep'' ex_world0))))"
    unfolding ex_built_def define_machine_def
    by (subst init) (simp add: case_prod_beta)
  then show ?thesis
    by (simp add: ex_events) (simp add: ex_machine_def)
qed

section \<open>The claims\<close>





text \<open>
  C3. A client defined through the public operations: states \<^verbatim>\<open>sweaty\<close> and
  \<^verbatim>\<open>asleep\<close>, initial state \<^verbatim>\<open>sweaty\<close>, and \<^verbatim>\<open>clean_up\<close> from \<^verbatim>\<open>sweaty\<close>
  to \<^verbatim>\<open>asleep\<close> guarded by \<^verbatim>\<open>is_exhausted\<close> as its sole candidate. Calling
  \<^verbatim>\<open>clean_up()\<close> raises nothing and leaves the state alone, but what it returns is
  \<^verbatim>\<open>None\<close>, the value of falling off the end of \<^verbatim>\<open>_trigger\<close>, not the boolean False.
  No run of a trigger returns False: the result is True, \<^verbatim>\<open>None\<close> or a raised
  exception (\<open>trigger_outcomes\<close>, \<open>trigger_never_False\<close>).
\<close>

theorem rejected_trigger_returns_none:
  "case define_machine [SName ''sweaty'', SName ''asleep''] ''sweaty''
          [(''clean_up'', ''sweaty'', ''asleep'', Many [PyStr ''is_exhausted''])] ex_world0 of
     (Raise e, w) \<Rightarrow> False
   | (Return M, w) \<Rightarrow>
       fst (call_entry ex_prog M ''clean_up'' no_args w) = Return PyNone
     \<and> fst (call_entry ex_prog M ''clean_up'' no_args w) \<noteq> Return (PyBool False)
     \<and> attrs (snd (call_entry ex_prog M ''clean_up'' no_args w)) ''state''
         = Some (PyStr ''sweaty'')"
  by (simp add: build_defs run_defs ex_world0_def ex_model_def ex_prog_def)





text \<open>
  C6. For every state list, initial name and model, the constructor returns a Machine;
  the model's state is then the initial name, the history of calls is the one before
  construction, and the initial name is a key of the state registry, whether or not the
  list had it.
\<close>

theorem construction_enters_initial_silently:
  "\<exists>M w'. Machine_init sts init w = (Return M, w')
         \<and> attrs w' ''state'' = Some (PyStr init)
         \<and> calls w' = calls w
         \<and> map_of (states M) init \<noteq> None"
proof -
  from Machine_init_shape[of w init sts] obtain M2 w2 sts5 w5 where
    b: "bind_states (states M2) (model_bound w2) = (sts5, w5)"
    and c: "calls w2 = calls w"
    and s: "map_of sts5 init \<noteq> None"
    and r: "Machine_init sts init w =
       (Return (M2\<lparr>states := sts5\<rparr>), w5\<lparr>attrs := (attrs w5)(''state'' \<mapsto> PyStr init)\<rparr>)"
    by blast
  from bind_states_frame[OF b, of "''state''"] c have "calls w5 = calls w"
    by (simp add: model_bound_def split: if_splits)
  with r s show ?thesis by simp
qed

text \<open>
  C7. The constructor of \<^verbatim>\<open>example.py\<close>'s kind of client, on the states \<^verbatim>\<open>asleep\<close>
  and \<^verbatim>\<open>hanging\<close> with the model method \<^verbatim>\<open>on_exit_asleep\<close>: \<^verbatim>\<open>add_state\<close> binds each
  state once, and the constructor's last loop binds every registered state again, so the
  State \<^verbatim>\<open>asleep\<close> holds the callback twice and \<^verbatim>\<open>wake_up(200, 300)\<close> calls it twice.
\<close>

theorem constructor_binds_twice:
  "case define_machine [SName ''asleep'', SName ''hanging''] ''asleep''
          [(''wake_up'', ''asleep'', ''hanging'', One PyNone)] ex_world0 of
     (Raise e, w) \<Rightarrow> False
   | (Return M, w) \<Rightarrow>
       map_option on_exit (map_of (states M) ''asleep'')
         = Some [PyStr ''on_exit_asleep'', PyStr ''on_exit_asleep'']
     \<and> fst (call_entry ex_prog M ''wake_up'' ex_args w) = Return (PyBool True)
     \<and> calls (snd (call_entry ex_prog M ''wake_up'' ex_args w))
         = [Fired OnExit (PyStr ''on_exit_asleep'') (Some (PyStr ''asleep'')),
            Fired OnExit (PyStr ''on_exit_asleep'') (Some (PyStr ''asleep''))]"
  by (simp add: build_defs run_defs ex_world0_def ex_model_def ex_prog_def ex_args_def arg_or_def)





text \<open>
  C10. \<^verbatim>\<open>add_transition\<close> with a trigger name that has no Event yet sets the model
  attribute of that name to the entry point, whatever was there, and logs no warning. The
  constructor leaves an existing attribute \<^verbatim>\<open>trigger\<close> as it is and logs the warning;
  without one it attaches the generic entry point and logs nothing.
\<close>

theorem entry_points_overwrite:
  "(map_of (events M) trigger = None \<longrightarrow>
       attrs (snd (Machine_add_transition trigger s d conds M w))
         = (attrs w)(trigger \<mapsto> Part (TriggerOf trigger))
     \<and> warnings (snd (Machine_add_transition trigger s d conds M w)) = warnings w)
 \<and> (attrs w ''trigger'' \<noteq> None \<longrightarrow>
       attrs (snd (Machine_init sts init w)) ''trigger'' = attrs w ''trigger''
     \<and> warnings (snd (Machine_init sts init w)) = warnings w @ [trigger_warning])
 \<and> (attrs w ''trigger'' = None \<longrightarrow>
       attrs (snd (Machine_init sts init w)) ''trigger'' = Some (Part GetTrigger)
     \<and> warnings (snd (Machine_init sts init w)) = warnings w)"
proof -
  from Machine_init_shape[of w init sts] obtain M2 w2 sts5 w5 where
    b: "bind_states (states M2) (model_bound w2) = (sts5, w5)"
    and wn: "warnings w2 = warnings w"
    and tr: "attrs w2 ''trigger'' = attrs w ''trigger''"
    and r: "Machine_init sts init w =
       (Return (M2\<lparr>states := sts5\<rparr>), w5\<lparr>attrs := (attrs w5)(''state'' \<mapsto> PyStr init)\<rparr>)"
    by blast
  from bind_states_frame[OF b, of "''trigger''"] not_accessor_state(2)
  have 5: "warnings w5 = warnings (model_bound w2)"
    "attrs w5 ''trigger'' = attrs (model_bound w2) ''trigger''"
    by simp_all
  have kept: "attrs (snd (Machine_init sts init w)) ''trigger'' = attrs w ''trigger''
      \<and> warnings (snd (Machine_init sts init w)) = warnings w @ [trigger_warning]"
    if "attrs w ''trigger'' \<noteq> None"
    using that r 5 wn tr by (simp add: model_bound_def)
  have fresh: "attrs (snd (Machine_init sts init w)) ''trigger'' = Some (Part GetTrigger)
      \<and> warnings (snd (Machine_init sts init w)) = warnings w"
    if "attrs w ''trigger'' = None"
    using that r 5 wn tr by (simp add: model_bound_def)
  from kept fresh show ?thesis by (simp add: add_transition_world)
qed

text \<open>
  The method \<^verbatim>\<open>update_journal\<close> replaced by a trigger of the same name; a model that
  brings its own \<^verbatim>\<open>trigger\<close> attribute; the model of \<^verbatim>\<open>example.py\<close>, which has none.
\<close>

theorem entry_points_overwrite_witness:
  "attrs (ex_in ''asleep'') ''update_journal'' = Some (Meth ''update_journal'')
 \<and> attrs (snd (Machine_add_transition ''update_journal'' ''asleep'' ''hanging'' (One PyNone)
                 ex_machine (ex_in ''asleep''))) ''update_journal''
     = Some (Part (TriggerOf ''update_journal''))
 \<and> warnings (snd (Machine_add_transition ''update_journal'' ''asleep'' ''hanging'' (One PyNone)
                    ex_machine (ex_in ''asleep''))) = []
 \<and> attrs (snd (Machine_init ex_states ''asleep''
                 (ex_world0\<lparr>attrs := ex_model(''trigger'' \<mapsto> PyInt 7)\<rparr>))) ''trigger''
     = Some (PyInt 7)
 \<and> warnings (snd (Machine_init ex_states ''asleep''
                    (ex_world0\<lparr>attrs := ex_model(''trigger'' \<mapsto> PyInt 7)\<rparr>)))
     = [trigger_warning]
 \<and> attrs (snd (Machine_init ex_states ''asleep'' ex_world0)) ''trigger'' = Some (Part GetTrigger)
 \<and> warnings (snd (Machine_init ex_states ''asleep'' ex_world0)) = []"
proof -
  let ?own = "ex_world0\<lparr>attrs := ex_model(''trigger'' \<mapsto> PyInt 7)\<rparr>"
  have fresh: "map_of (events ex_machine) ''update_journal'' = None"
    by (simp add: ex_machine_def)
  have own: "attrs ?own ''trigger'' \<noteq> None"
    by simp
  have none: "attrs ex_world0 ''trigger'' = None"
    by (simp add: ex_world0_def ex_model_def)
  from entry_points_overwrite[where M = ex_machine and trigger = "''update_journal''"
      and s = "''asleep''" and d = "''hanging''" and conds = "One PyNone"
      and w = "ex_in ''asleep''"] fresh
  have 1: "attrs (snd (Machine_add_transition ''update_journal'' ''asleep'' ''hanging'' (One PyNone)
                 ex_machine (ex_in ''asleep''))) ''update_journal''
       = Some (Part (TriggerOf ''update_journal''))
     \<and> warnings (snd (Machine_add_transition ''update_journal'' ''asleep'' ''hanging''
                 (One PyNone) ex_machine (ex_in ''asleep''))) = []"
    by (simp add: ex_in_def)
  from entry_points_overwrite[where w = ?own and sts = ex_states and init = "''asleep''"] own
  have 2: "attrs (snd (Machine_init ex_states ''asleep'' ?own)) ''trigger'' = Some (PyInt 7)
     \<and> warnings (snd (Machine_init ex_states ''asleep'' ?own)) = [trigger_warning]"
    by (simp add: ex_world0_def)
  from entry_points_overwrite[where w = ex_world0 and sts = ex_states and init = "''asleep''"] none
  have 3: "attrs (snd (Machine_init ex_states ''asleep'' ex_world0)) ''trigger''
       = Some (Part GetTrigger)
     \<and> warnings (snd (Machine_init ex_states ''asleep'' ex_world0)) = []"
    by (simp add: ex_world0_def)
  have 0: "attrs (ex_in ''asleep'') ''update_journal'' = Some (Meth ''update_journal'')"
    by (simp add: ex_in_def ex_model_def)
  from 0 1 2 3 show ?thesis by simp
qed

end
